theory Spec2Isabelle
  imports Main "HOL-Library.AList"
begin

section \<open>The anaconda.org client: \<^verbatim>\<open>binstar_client/__init__.py\<close>\<close>

text \<open>
  The class \<^verbatim>\<open>Binstar\<close> wraps the REST interface of the package server. Each method
  builds a URL from \<^verbatim>\<open>self.domain\<close>, performs one or more HTTP calls through the
  \<^verbatim>\<open>requests\<close> library, checks the status with \<^verbatim>\<open>_check_response\<close> and returns the
  decoded body. The embedding below makes three things explicit that the Python leaves
  implicit: the values of Python (a datatype), the exceptions (the left summand of a
  sum type) and the outside world (a state that the HTTP calls read and change, with
  a trace of everything the client did to it).
\<close>

subsection \<open>Python values and exceptions\<close>

text \<open>
  The values the client handles are the ones that JSON decoding produces and the
  arguments of the methods. A dictionary is an association list in insertion order;
  a lookup finds the first entry of a key, an assignment replaces the entry of the
  key where it stands or appends a new one (\<^const>\<open>map_of\<close> and \<^const>\<open>AList.update\<close>).
  A float is kept by its literal, the client never computes with one.
\<close>

datatype pyval =
    PNone
  | PBool bool
  | PInt int
  | PFloat string
  | PStr string
  | PList "pyval list"
  | PTuple "pyval list"
  | PDict "(string \<times> pyval) list"

text \<open>
  The classes of \<^verbatim>\<open>binstar_client.errors\<close> that \<^verbatim>\<open>_check_response\<close> chooses from
  (\<^verbatim>\<open>BinstarError\<close> is the base class, the one the specification calls the generic
  error), and the exceptions of the client: an API error with its two arguments
  \<^verbatim>\<open>(msg, status_code)\<close>, and the built-in exceptions that the statements of the
  methods can raise.
\<close>

datatype errcls = BinstarError | Unauthorized | NotFound | Conflict | ServerError

datatype pyerror =
    ApiError errcls pyval int
  | TypeError string
  | KeyError string
  | ValueError string
  | AttributeError string
  | UnboundLocalError string

subsection \<open>Requests, responses and the world\<close>

text \<open>
  A call of the \<^verbatim>\<open>requests\<close> library is recorded with the arguments the source
  passes: the channel (the session of the client, which adds the session's headers
  and its \<^verbatim>\<open>verify\<close> flag, or the module-level functions \<^verbatim>\<open>requests.get\<close> and
  \<^verbatim>\<open>requests.post\<close>), the method, the URL, and the keyword arguments, each
  \<^const>\<open>None\<close> when the call does not pass it.
\<close>

type_synonym header_list = "(string \<times> string) list"

datatype channel = Session header_list bool | Requests

record request =
  channel :: channel
  meth :: string
  url :: string
  data :: "string option"
  hdrs :: "header_list option"
  allow_redirects :: "bool option"
  stream :: "bool option"
  verify :: "bool option"
  timeout :: "int option"

definition call :: "channel \<Rightarrow> string \<Rightarrow> string \<Rightarrow> request" where
  "call ch m u =
     \<lparr>channel = ch, meth = m, url = u, data = None, hdrs = None,
      allow_redirects = None, stream = None, verify = None, timeout = None\<rparr>"

text \<open>
  A response, as far as the client reads it: \<^verbatim>\<open>res.status_code\<close>, \<^verbatim>\<open>res.headers\<close>
  (keyed by the lower-case header name; the library's dictionary ignores case),
  \<^verbatim>\<open>res.json()\<close> (\<^const>\<open>None\<close> when the body does not decode and the call raises),
  \<^verbatim>\<open>res.text\<close>, \<^verbatim>\<open>res.request.method\<close> and \<^verbatim>\<open>res.request.url\<close>.
\<close>

record response =
  status_code :: int
  headers :: header_list
  json :: "pyval option"
  body_text :: string
  request_method :: string
  request_url :: string

text \<open>
  The file-like object handed to \<^verbatim>\<open>upload\<close>: its bytes and the read position.
\<close>

record fd =
  content :: string
  pos :: nat

text \<open>
  What the client does to the outside, in the order it does it.
\<close>

datatype event =
    EvRequest request
  | EvWarn string
  | EvLog string
  | EvComputeHash fd "int option"
  | EvStreamMultipart pyval string fd

record 'w state =
  world :: 'w
  trace :: "event list"

text \<open>
  The modules the file imports and that are not part of it are parameters of the
  model: \<^verbatim>\<open>__version__\<close>, the version parser \<^verbatim>\<open>pv\<close> into some ordered type, the table
  \<^verbatim>\<open>STATUS_CODES\<close>, \<^verbatim>\<open>jencode\<close>, \<^verbatim>\<open>compute_hash\<close> (which returns the hexadecimal
  digest, the base64 digest and the size, and leaves the file somewhere),
  \<^verbatim>\<open>stream_multipart\<close> (the encoded body and its headers), the headers a fresh
  \<^verbatim>\<open>requests.Session()\<close> starts with, and the server: \<^verbatim>\<open>send\<close> answers a request in a
  world and gives the next world. The transport is taken to answer every request;
  an exception raised inside the library (a refused connection) is not modelled,
  and neither is one raised inside the imported helpers.
\<close>

record ('w, 'v) env =
  version :: string
  pv :: "string \<Rightarrow> 'v"
  STATUS_CODES :: "int \<Rightarrow> (string \<times> string) option"
  jencode :: "pyval \<Rightarrow> string \<times> header_list"
  compute_hash :: "fd \<Rightarrow> int option \<Rightarrow> (string \<times> string \<times> int) \<times> fd"
  stream_multipart :: "pyval \<Rightarrow> string \<Rightarrow> fd \<Rightarrow> string \<times> header_list"
  session_defaults :: header_list
  send :: "'w \<Rightarrow> request \<Rightarrow> response \<times> 'w"

definition emit :: "event \<Rightarrow> 'w state \<Rightarrow> 'w state" where
  "emit ev s = s\<lparr>trace := trace s @ [ev]\<rparr>"


definition http :: "('w, 'v) env \<Rightarrow> request \<Rightarrow> 'w state \<Rightarrow> response \<times> 'w state" where
  "http e r s =
     (case send e (world s) r of
        (res, w) \<Rightarrow> (res, \<lparr>world = w, trace = trace s @ [EvRequest r]\<rparr>))"

subsection \<open>The operations of Python that the methods use\<close>

text \<open>
  Truth of an optional string (\<^verbatim>\<open>if token:\<close>, \<^verbatim>\<open>if md5:\<close>, \<^verbatim>\<open>if basename:\<close>):
  \<^verbatim>\<open>None\<close> and the empty string are false.
\<close>

fun truthy :: "string option \<Rightarrow> bool" where
  "truthy None = False"
| "truthy (Some x) = (x \<noteq> [])"

text \<open>
  \<^verbatim>\<open>s.endswith(suffix)\<close>, and \<^verbatim>\<open>'%s' % n\<close> for an integer: its decimal digits, most
  significant first, after a minus sign when it is negative. The digit of a number
  below ten is read off the string of the ten digits.
\<close>

definition endswith :: "string \<Rightarrow> string \<Rightarrow> bool" where
  "endswith x suf \<longleftrightarrow> length suf \<le> length x \<and> drop (length x - length suf) x = suf"

definition digit :: "nat \<Rightarrow> char" where
  "digit n = ''0123456789'' ! n"

fun str_nat :: "nat \<Rightarrow> string" where
  "str_nat n =
     (if n < 10 then [digit n]
      else str_nat (n div 10) @ [digit (n mod 10)])"

declare str_nat.simps [simp del]

definition str_int :: "int \<Rightarrow> string" where
  "str_int i = (if i < 0 then CHR ''-'' # str_nat (nat (- i)) else str_nat (nat i))"

text \<open>
  \<^verbatim>\<open>isinstance(x, dict)\<close>, \<^verbatim>\<open>x[k]\<close>, \<^verbatim>\<open>x[k] = v\<close> and \<^verbatim>\<open>x.get(k, d)\<close> for a string key.
  Only a dictionary has string keys and a method \<^verbatim>\<open>get\<close>: on every other value
  the subscript raises \<^verbatim>\<open>TypeError\<close> and the attribute \<^verbatim>\<open>AttributeError\<close>.
\<close>

fun is_dict :: "pyval \<Rightarrow> bool" where
  "is_dict (PDict kvs) = True"
| "is_dict v = False"

fun getitem :: "pyval \<Rightarrow> string \<Rightarrow> pyerror + pyval" where
  "getitem (PDict kvs) k =
     (case map_of kvs k of None \<Rightarrow> Inl (KeyError k) | Some v \<Rightarrow> Inr v)"
| "getitem v k = Inl (TypeError ''indices must be integers'')"

fun setitem :: "pyval \<Rightarrow> string \<Rightarrow> pyval \<Rightarrow> pyerror + pyval" where
  "setitem (PDict kvs) k v = Inr (PDict (AList.update k v kvs))"
| "setitem x k v = Inl (TypeError ''object does not support item assignment'')"

fun dict_get :: "pyval \<Rightarrow> string \<Rightarrow> pyval \<Rightarrow> pyerror + pyval" where
  "dict_get (PDict kvs) k d = Inr (case map_of kvs k of None \<Rightarrow> d | Some v \<Rightarrow> v)"
| "dict_get x k d = Inl (AttributeError ''get'')"

subsection \<open>The constructor\<close>

text \<open>
  \<^verbatim>\<open>
  def __init__(self, token=None, domain='https://api.anaconda.org', verify=True):
      self._session = requests.Session()
      self._session.headers['x-binstar-api-version'] = __version__
      self.session.verify = verify
      self.token = token
      if token:
          self._session.headers.update({'Authorization': 'token %s' % (token),
                                        'User-Agent': 'Binstar/%s (+https://anaconda.org)' % __version__})
      if domain.endswith('/'):
          domain = domain[:-1]
      self.domain = domain
  \<close>
\<close>

record Binstar =
  token :: "string option"
  domain :: string
  session_headers :: header_list
  session_verify :: bool

definition init :: "('w, 'v) env \<Rightarrow> string option \<Rightarrow> string \<Rightarrow> bool \<Rightarrow> Binstar" where
  "init e tok dmn ver =
     (let h0 = AList.update ''x-binstar-api-version'' (version e) (session_defaults e);
          h1 = (if truthy tok
                then AList.update ''User-Agent''
                       (''Binstar/'' @ version e @ '' (+https://anaconda.org)'')
                       (AList.update ''Authorization'' (''token '' @ the tok) h0)
                else h0);
          dmn1 = (if endswith dmn ''/'' then butlast dmn else dmn)
      in \<lparr>token = tok, domain = dmn1, session_headers = h1, session_verify = ver\<rparr>)"

definition session :: "Binstar \<Rightarrow> channel" where
  "session b = Session (session_headers b) (session_verify b)"

subsection \<open>Checking a response\<close>

text \<open>
  \<^verbatim>\<open>
  def _check_response(self, res, allowed=[200]):
      api_version = res.headers.get('x-binstar-api-version', '0.2.1')
      if pv(api_version) > pv(__version__):
          msg = ('The api server is running the binstar-api version %s. you are using %s\n' % (api_version, __version__)
                 + 'Please update your client with pip install -U binstar or conda update binstar')
          warnings.warn(msg, stacklevel=4)
      if not res.status_code in allowed:
          short, long = STATUS_CODES.get(res.status_code, ('?', 'Undefined error'))
          msg = '%s: %s ([%s] %s -> %s)' % (short, long, res.request.method, res.request.url, res.status_code)
          try:
              data = res.json()
          except:
              pass
          else:
              msg = data.get('error', msg)
          ErrCls = errors.BinstarError
          if res.status_code == 401:
              ErrCls = errors.Unauthorized
          elif res.status_code == 404:
              ErrCls = errors.NotFound
          elif res.status_code == 409:
              ErrCls = errors.Conflict
          elif res.status_code >= 500:
              ErrCls = errors.ServerError
          raise ErrCls(msg, res.status_code)
  \<close>
  The call \<^verbatim>\<open>data.get\<close> stands in the \<^verbatim>\<open>else\<close> branch of the \<^verbatim>\<open>try\<close>, outside
  its protection: when the body decodes to a value that is not a dictionary, the
  \<^verbatim>\<open>AttributeError\<close> leaves the method before an error class is chosen.
  The first statement, the comparison of the versions with its warning, is a
  function of its own; it changes the trace and nothing else.
\<close>

definition version_warning :: "string \<Rightarrow> string \<Rightarrow> string" where
  "version_warning api_version ver =
     ''The api server is running the binstar-api version '' @ api_version
     @ ''. you are using '' @ ver @ [CHR 0x0A]
     @ ''Please update your client with pip install -U binstar or conda update binstar''"

definition synthesized :: "('w, 'v) env \<Rightarrow> response \<Rightarrow> string" where
  "synthesized e res =
     (case (case STATUS_CODES e (status_code res) of
              None \<Rightarrow> (''?'', ''Undefined error'') | Some p \<Rightarrow> p) of
        (short, long) \<Rightarrow>
          short @ '': '' @ long @ '' (['' @ request_method res @ ''] '' @ request_url res
          @ '' -> '' @ str_int (status_code res) @ '')'')"

definition ErrCls :: "int \<Rightarrow> errcls" where
  "ErrCls st =
     (if st = 401 then Unauthorized
      else if st = 404 then NotFound
      else if st = 409 then Conflict
      else if st \<ge> 500 then ServerError
      else BinstarError)"

definition version_check :: "('w, 'v::ord) env \<Rightarrow> response \<Rightarrow> 'w state \<Rightarrow> 'w state" where
  "version_check e res s =
     (let api_version = (case map_of (headers res) ''x-binstar-api-version'' of
                           None \<Rightarrow> ''0.2.1'' | Some v \<Rightarrow> v)
      in if pv e api_version > pv e (version e)
         then emit (EvWarn (version_warning api_version (version e))) s else s)"

definition check_response ::
  "('w, 'v::ord) env \<Rightarrow> response \<Rightarrow> int list \<Rightarrow> 'w state \<Rightarrow> (pyerror + unit) \<times> 'w state" where
  "check_response e res allowed s =
     (let s1 = version_check e res s
      in if status_code res \<notin> set allowed
         then (case (case json res of
                       None \<Rightarrow> Inr (PStr (synthesized e res))
                     | Some d \<Rightarrow> dict_get d ''error'' (PStr (synthesized e res))) of
                 Inl err \<Rightarrow> (Inl err, s1)
               | Inr msg \<Rightarrow> (Inl (ApiError (ErrCls (status_code res)) msg (status_code res)), s1))
         else (Inr (), s1))"

subsection \<open>The delete operations\<close>




text \<open>
  \<^verbatim>\<open>res.json()\<close> as a statement of its own: the decoded body, or the \<^verbatim>\<open>ValueError\<close>
  of the decoder.
\<close>

definition res_json :: "response \<Rightarrow> pyerror + pyval" where
  "res_json res =
     (case json res of
        None \<Rightarrow> Inl (ValueError ''No JSON object could be decoded'')
      | Some v \<Rightarrow> Inr v)"

definition remove_dist ::
  "('w, 'v::ord) env \<Rightarrow> Binstar \<Rightarrow> string \<Rightarrow> string \<Rightarrow> string \<Rightarrow> string option \<Rightarrow> string option
     \<Rightarrow> 'w state \<Rightarrow> (pyerror + pyval) \<times> 'w state" where
  "remove_dist e b login package_name release basename xid s =
     (case (if truthy basename
            then Inr (domain b @ ''/dist/'' @ login @ ''/'' @ package_name @ ''/'' @ release
                      @ ''/'' @ the basename)
            else if truthy xid
            then Inr (domain b @ ''/dist/'' @ login @ ''/'' @ package_name @ ''/'' @ release
                      @ ''/-/'' @ the xid)
            else Inl (TypeError
                   (''method remove_dist expects either '' @ [CHR 0x27] @ ''basename''
                    @ [CHR 0x27] @ '' or '' @ [CHR 0x27] @ ''_id'' @ [CHR 0x27]
                    @ '' arguments''))) of
        Inl err \<Rightarrow> (Inl err, s)
      | Inr u \<Rightarrow>
          (case http e (call (session b) ''DELETE'' u) s of
             (res, s1) \<Rightarrow>
               (case check_response e res [200] s1 of
                  (Inl err, s2) \<Rightarrow> (Inl err, s2)
                | (Inr _, s2) \<Rightarrow> (res_json res, s2))))"

subsection \<open>Download\<close>

text \<open>
  \<^verbatim>\<open>
  def download(self, login, package_name, release, basename, md5=None):
      url = '%s/download/%s/%s/%s/%s' % (self.domain, login, package_name, release, basename)
      if md5:
          headers = {'ETag':md5, }
      else:
          headers = {}
      res = self.session.get(url, headers=headers, allow_redirects=False)
      self._check_response(res, allowed=[302, 304])
      if res.status_code == 304:
          return None
      elif res.status_code == 302:
          res2 = requests.get(res.headers['location'], stream=True)
          return res2
  \<close>
  The result is the second response (the handle whose body is still to be read) or
  \<^verbatim>\<open>None\<close>.
\<close>

definition download_request ::
  "Binstar \<Rightarrow> string \<Rightarrow> string \<Rightarrow> string \<Rightarrow> string \<Rightarrow> string option \<Rightarrow> request" where
  "download_request b login package_name release basename md5 =
     (let u = domain b @ ''/download/'' @ login @ ''/'' @ package_name @ ''/'' @ release
              @ ''/'' @ basename;
          hs = (if truthy md5 then [(''ETag'', the md5)] else [])
      in (call (session b) ''GET'' u)\<lparr>hdrs := Some hs, allow_redirects := Some False\<rparr>)"

definition redirect_request :: "string \<Rightarrow> request" where
  "redirect_request loc = (call Requests ''GET'' loc)\<lparr>stream := Some True\<rparr>"

definition download ::
  "('w, 'v::ord) env \<Rightarrow> Binstar \<Rightarrow> string \<Rightarrow> string \<Rightarrow> string \<Rightarrow> string \<Rightarrow> string option
     \<Rightarrow> 'w state \<Rightarrow> (pyerror + response option) \<times> 'w state" where
  "download e b login package_name release basename md5 s =
     (case http e (download_request b login package_name release basename md5) s of
        (res, s1) \<Rightarrow>
          (case check_response e res [302, 304] s1 of
             (Inl err, s2) \<Rightarrow> (Inl err, s2)
           | (Inr _, s2) \<Rightarrow>
               if status_code res = 304 then (Inr None, s2)
               else if status_code res = 302 then
                 (case map_of (headers res) ''location'' of
                    None \<Rightarrow> (Inl (KeyError ''location''), s2)
                  | Some loc \<Rightarrow>
                      (case http e (redirect_request loc) s2 of
                         (res2, s3) \<Rightarrow> (Inr (Some res2), s3)))
               else (Inr None, s2)))"

subsection \<open>Upload\<close>

text \<open>
  \<^verbatim>\<open>
  def upload(self, login, package_name, release, basename, fd, distribution_type,
             description='', md5=None, size=None, dependencies=None, attrs=None,
             channels=('main',), callback=None):
      url = '%s/stage/%s/%s/%s/%s' % (self.domain, login, package_name, release, basename)
      if attrs is None:
          attrs = {}
      if not isinstance(attrs, dict):
          raise TypeError('argument attrs must be a dictionary')
      payload = dict(distribution_type=distribution_type, description=description, attrs=attrs,
                     dependencies=dependencies, channels=channels)
      data, headers = jencode(payload)
      res = self.session.post(url, data=data, headers=headers)
      self._check_response(res)
      obj = res.json()
      s3url = obj['post_url']
      s3data = obj['form_data']
      if md5 is None:
          _hexmd5, b64md5, size = compute_hash(fd, size=size)
      elif size is None:
          spos = fd.tell()
          fd.seek(0, os.SEEK_END)
          size = fd.tell() - spos
          fd.seek(spos)
      s3data['Content-Length'] = size
      s3data['Content-MD5'] = b64md5
      data_stream, headers = stream_multipart(s3data, files={'file':(basename, fd)},
                                              callback=callback)
      s3res = requests.post(s3url, data=data_stream, verify=self.session.verify,
                            timeout=10 * 60 * 60, headers=headers)
      if s3res.status_code != 201:
          log.info(s3res.text)
          log.info('')
          log.info('')
          raise errors.BinstarError('Error uploading package', s3res.status_code)
      url = '%s/commit/%s/%s/%s/%s' % (self.domain, login, package_name, release, basename)
      payload = dict(dist_id=obj['dist_id'])
      data, headers = jencode(payload)
      res = self.session.post(url, data=data, headers=headers)
      self._check_response(res)
      return res.json()
  \<close>
  The method is embedded in parts, given in the order that lets each use the ones
  before it: the commit (from the second assignment of \<^verbatim>\<open>url\<close> on), the
  \<^verbatim>\<open>if md5 is None\<close> statement, the transfer (from that statement on), and the whole
  method. The three requests are built by functions of their own, so that the
  theorems can name them. The local variable \<^verbatim>\<open>b64md5\<close> is
  assigned in the first branch of the \<^verbatim>\<open>if\<close> only; it is an optional value, and
  reading it unassigned raises \<^verbatim>\<open>UnboundLocalError\<close>. After the \<^verbatim>\<open>if\<close> the variable
  \<^verbatim>\<open>size\<close> is an integer on each of the three paths. The progress callback is not
  part of the model. A \<^verbatim>\<open>post_url\<close> that is not a string is refused by the library
  with its \<^verbatim>\<open>MissingSchema\<close>, a \<^verbatim>\<open>ValueError\<close>.
\<close>

definition commit_request ::
  "('w, 'v) env \<Rightarrow> Binstar \<Rightarrow> pyval \<Rightarrow> string \<Rightarrow> string \<Rightarrow> string \<Rightarrow> string \<Rightarrow> request" where
  "commit_request e b dist_id login package_name release basename =
     (let u = domain b @ ''/commit/'' @ login @ ''/'' @ package_name @ ''/'' @ release
              @ ''/'' @ basename
      in case jencode e (PDict [(''dist_id'', dist_id)]) of
           (dat, hs) \<Rightarrow> (call (session b) ''POST'' u)\<lparr>data := Some dat, hdrs := Some hs\<rparr>)"

definition upload_commit ::
  "('w, 'v::ord) env \<Rightarrow> Binstar \<Rightarrow> pyval \<Rightarrow> string \<Rightarrow> string \<Rightarrow> string \<Rightarrow> string
     \<Rightarrow> 'w state \<Rightarrow> (pyerror + pyval) \<times> 'w state" where
  "upload_commit e b obj login package_name release basename s =
     (case getitem obj ''dist_id'' of
        Inl err \<Rightarrow> (Inl err, s)
      | Inr dist_id \<Rightarrow>
          (case http e (commit_request e b dist_id login package_name release basename) s of
             (res, s1) \<Rightarrow>
               (case check_response e res [200] s1 of
                  (Inl err, s2) \<Rightarrow> (Inl err, s2)
                | (Inr _, s2) \<Rightarrow> (res_json res, s2))))"

text \<open>
  The \<^verbatim>\<open>if md5 is None ... elif size is None ...\<close> statement: the new values of
  \<^verbatim>\<open>b64md5\<close>, \<^verbatim>\<open>size\<close> and of the file, and the state.
\<close>

definition hashing ::
  "('w, 'v) env \<Rightarrow> fd \<Rightarrow> string option \<Rightarrow> int option \<Rightarrow> 'w state
     \<Rightarrow> (string option \<times> int \<times> fd) \<times> 'w state" where
  "hashing e f md5 sz s =
     (case md5 of
        None \<Rightarrow>
          (case compute_hash e f sz of
             ((hexmd5, b64md5, size1), f1) \<Rightarrow>
               ((Some b64md5, size1, f1), emit (EvComputeHash f sz) s))
      | Some m \<Rightarrow>
          (case sz of
             None \<Rightarrow>
               (let spos = pos f;
                    f1 = f\<lparr>pos := length (content f)\<rparr>;
                    size1 = int (pos f1) - int spos;
                    f2 = f1\<lparr>pos := spos\<rparr>
                in ((None, size1, f2), s))
           | Some size1 \<Rightarrow> ((None, size1, f), s)))"

definition storage_request ::
  "('w, 'v) env \<Rightarrow> Binstar \<Rightarrow> string \<Rightarrow> pyval \<Rightarrow> string \<Rightarrow> fd \<Rightarrow> request" where
  "storage_request e b s3url s3data basename f =
     (case stream_multipart e s3data basename f of
        (data_stream, hs) \<Rightarrow>
          (call Requests ''POST'' s3url)
            \<lparr>data := Some data_stream, hdrs := Some hs,
             verify := Some (session_verify b), timeout := Some (10 * 60 * 60)\<rparr>)"

definition upload_transfer ::
  "('w, 'v::ord) env \<Rightarrow> Binstar \<Rightarrow> pyval \<Rightarrow> pyval \<Rightarrow> pyval \<Rightarrow> string \<Rightarrow> string \<Rightarrow> string
     \<Rightarrow> string \<Rightarrow> fd \<Rightarrow> string option \<Rightarrow> int option \<Rightarrow> 'w state
     \<Rightarrow> (pyerror + pyval) \<times> 'w state" where
  "upload_transfer e b obj s3url s3data login package_name release basename f md5 sz s =
     (case hashing e f md5 sz s of
        ((b64md5, size1, f1), s1) \<Rightarrow>
          (case setitem s3data ''Content-Length'' (PInt size1) of
             Inl err \<Rightarrow> (Inl err, s1)
           | Inr s3data1 \<Rightarrow>
               (case b64md5 of
                  None \<Rightarrow> (Inl (UnboundLocalError ''b64md5''), s1)
                | Some b64 \<Rightarrow>
                    (case setitem s3data1 ''Content-MD5'' (PStr b64) of
                       Inl err \<Rightarrow> (Inl err, s1)
                     | Inr s3data2 \<Rightarrow>
                         (let s2 = emit (EvStreamMultipart s3data2 basename f1) s1
                          in case s3url of
                               PStr u \<Rightarrow>
                                 (case http e (storage_request e b u s3data2 basename f1) s2 of
                                    (s3res, s3) \<Rightarrow>
                                      if status_code s3res \<noteq> 201
                                      then (Inl (ApiError BinstarError
                                                   (PStr ''Error uploading package'')
                                                   (status_code s3res)),
                                            emit (EvLog [])
                                              (emit (EvLog [])
                                                 (emit (EvLog (body_text s3res)) s3)))
                                      else upload_commit e b obj login package_name
                                             release basename s3)
                             | _ \<Rightarrow> (Inl (ValueError ''Invalid URL''), s2))))))"

definition stage_request ::
  "('w, 'v) env \<Rightarrow> Binstar \<Rightarrow> string \<Rightarrow> string \<Rightarrow> string \<Rightarrow> string \<Rightarrow> string \<Rightarrow> string
     \<Rightarrow> pyval \<Rightarrow> pyval \<Rightarrow> pyval \<Rightarrow> request" where
  "stage_request e b login package_name release basename distribution_type description
     dependencies attrs channels =
     (let u = domain b @ ''/stage/'' @ login @ ''/'' @ package_name @ ''/'' @ release
              @ ''/'' @ basename
      in case jencode e (PDict [(''distribution_type'', PStr distribution_type),
                                (''description'', PStr description),
                                (''attrs'', attrs),
                                (''dependencies'', dependencies),
                                (''channels'', channels)]) of
           (dat, hs) \<Rightarrow> (call (session b) ''POST'' u)\<lparr>data := Some dat, hdrs := Some hs\<rparr>)"

definition upload ::
  "('w, 'v::ord) env \<Rightarrow> Binstar \<Rightarrow> string \<Rightarrow> string \<Rightarrow> string \<Rightarrow> string \<Rightarrow> fd \<Rightarrow> string
     \<Rightarrow> string \<Rightarrow> string option \<Rightarrow> int option \<Rightarrow> pyval \<Rightarrow> pyval \<Rightarrow> pyval \<Rightarrow> 'w state
     \<Rightarrow> (pyerror + pyval) \<times> 'w state" where
  "upload e b login package_name release basename f distribution_type description md5 sz
     dependencies attrs channels s =
     (let attrs1 = (if attrs = PNone then PDict [] else attrs)
      in if \<not> is_dict attrs1
         then (Inl (TypeError ''argument attrs must be a dictionary''), s)
         else
           (case http e (stage_request e b login package_name release basename
                           distribution_type description dependencies attrs1 channels) s of
              (res, s1) \<Rightarrow>
                (case check_response e res [200] s1 of
                   (Inl err, s2) \<Rightarrow> (Inl err, s2)
                 | (Inr _, s2) \<Rightarrow>
                     (case res_json res of
                        Inl err \<Rightarrow> (Inl err, s2)
                      | Inr obj \<Rightarrow>
                          (case getitem obj ''post_url'' of
                             Inl err \<Rightarrow> (Inl err, s2)
                           | Inr s3url \<Rightarrow>
                               (case getitem obj ''form_data'' of
                                  Inl err \<Rightarrow> (Inl err, s2)
                                | Inr s3data \<Rightarrow>
                                    upload_transfer e b obj s3url s3data login
                                      package_name release basename f md5 sz s2))))))"

text \<open>
  Three readings of a trace, each in the order of the events: the requests that were
  sent, the forms that were handed to the multipart encoder, and the lines that were
  written to the log.
\<close>

fun requests_of :: "event list \<Rightarrow> request list" where
  "requests_of [] = []"
| "requests_of (EvRequest r # evs) = r # requests_of evs"
| "requests_of (ev # evs) = requests_of evs"

fun encoded :: "event list \<Rightarrow> pyval list" where
  "encoded [] = []"
| "encoded (EvStreamMultipart d bn f # evs) = d # encoded evs"
| "encoded (ev # evs) = encoded evs"

fun logged :: "event list \<Rightarrow> string list" where
  "logged [] = []"
| "logged (EvLog t # evs) = t # logged evs"
| "logged (ev # evs) = logged evs"

subsection \<open>A concrete environment\<close>

text \<open>
  For evaluating the methods on concrete inputs: a server that answers the requests
  with a prepared list of responses, one after the other (each response is stamped
  with the method and the URL of its request; past the end of the list the server
  answers 503), a two-line table of status codes, a version order by length, and
  stand-ins for the encoders and the hash.
\<close>

definition reply :: "int \<Rightarrow> pyval option \<Rightarrow> string \<Rightarrow> response" where
  "reply st j t =
     \<lparr>status_code = st, headers = [], json = j, body_text = t,
      request_method = [], request_url = []\<rparr>"

definition scripted :: "response list \<Rightarrow> request \<Rightarrow> response \<times> response list" where
  "scripted w r =
     (case w of
        [] \<Rightarrow> ((reply 503 None [])\<lparr>request_method := meth r, request_url := url r\<rparr>, [])
      | x # xs \<Rightarrow> (x\<lparr>request_method := meth r, request_url := url r\<rparr>, xs))"

definition example_env :: "(response list, nat) env" where
  "example_env =
     \<lparr>version = ''0.8'',
      pv = length,
      STATUS_CODES = map_of [(409, (''Conflict'', ''Request conflict'')),
                             (400, (''Bad Request'', ''Bad request syntax''))],
      jencode = (\<lambda>v. (''{}'', [(''Content-Type'', ''application/json'')])),
      compute_hash = (\<lambda>f sz. ((''d41d8cd9'', ''1B2M2Y8A'', int (length (content f)) - int (pos f)), f)),
      stream_multipart = (\<lambda>d bn f. (drop (pos f) (content f), [])),
      session_defaults = [],
      send = scripted\<rparr>"

definition example_client :: Binstar where
  "example_client = init example_env None ''https://api.anaconda.org'' True"

definition example_fd :: fd where
  "example_fd = \<lparr>content = ''abc'', pos = 0\<rparr>"

definition start :: "'w \<Rightarrow> 'w state" where
  "start w = \<lparr>world = w, trace = []\<rparr>"

text \<open>
  A stage response as the server sends it (the storage URL, the form for the storage
  and the identifier of the staged distribution), a commit response, and the call of
  \<^const>\<open>upload\<close> that the examples share: the file \<open>f.tgz\<close> of three bytes for the
  release \<open>1.0\<close> of the package \<open>u/p\<close>, with the digest, the size and the list of
  prepared responses left open.
\<close>

definition staged :: response where
  "staged = reply 200
     (Some (PDict [(''post_url'', PStr ''https://s3/x''),
                   (''form_data'', PDict [(''key'', PStr ''u/p/f.tgz''),
                                          (''Content-Length'', PInt 0),
                                          (''acl'', PStr ''private'')]),
                   (''dist_id'', PStr ''abc'')])) []"

definition committed :: response where
  "committed = reply 200 (Some (PDict [(''id'', PStr ''release1'')])) []"

definition example_upload ::
  "string option \<Rightarrow> int option \<Rightarrow> response list \<Rightarrow> (pyerror + pyval) \<times> response list state" where
  "example_upload md5 sz w =
     upload example_env example_client ''u'' ''p'' ''1.0'' ''f.tgz'' example_fd ''conda'' []
       md5 sz PNone PNone (PTuple [PStr ''main'']) (start w)"

section \<open>Properties\<close>

subsection \<open>The constructor and the trailing slash\<close>

text \<open>
  Claim C10. For a domain \<open>d\<close> that does not end in a slash, the client constructed
  with \<open>d\<close> followed by a slash is the client constructed with \<open>d\<close>: the same
  \<^verbatim>\<open>self.domain\<close>, namely \<open>d\<close>, the same session, and so the same URL in every
  request that a method builds from the client. The constructor removes one slash
  and no more: of two trailing slashes one stays.
\<close>

theorem init_trailing_slash:
  "\<not> endswith d ''/'' \<Longrightarrow>
     init e tok (d @ ''/'') ver = init e tok d ver
     \<and> domain (init e tok d ver) = d
     \<and> domain (init e tok (d @ ''//'') ver) = d @ ''/''"
  by (auto simp add: init_def endswith_def Let_def butlast_append)

theorem init_trailing_slash_witness:
  "\<not> endswith ''https://api.anaconda.org'' ''/''
   \<and> init example_env None ''https://api.anaconda.org/'' True
       = init example_env None ''https://api.anaconda.org'' True
   \<and> domain (init example_env None ''https://api.anaconda.org'' True)
       = ''https://api.anaconda.org''
   \<and> domain (init example_env None ''https://api.anaconda.org//'' True)
       = ''https://api.anaconda.org/''"
proof -
  have h: "\<not> endswith ''https://api.anaconda.org'' ''/''"
    by (simp add: endswith_def)
  from init_trailing_slash [OF h, of example_env None True] h show ?thesis
    by simp
qed

subsection \<open>Arguments refused before any request\<close>

text \<open>
  Claim C9. When \<^verbatim>\<open>attrs\<close> is neither \<^verbatim>\<open>None\<close> nor a dictionary, \<^verbatim>\<open>upload\<close> raises
  \<^verbatim>\<open>TypeError\<close> and leaves the state as it found it: no request was sent and nothing
  was recorded. With \<^verbatim>\<open>attrs=None\<close> the method does what it does with the empty
  dictionary.
\<close>

theorem upload_attrs_type_error:
  "(attrs \<noteq> PNone \<and> \<not> is_dict attrs \<longrightarrow>
      upload e b login package_name release basename f distribution_type description md5 sz
        dependencies attrs channels s
      = (Inl (TypeError ''argument attrs must be a dictionary''), s))
   \<and> upload e b login package_name release basename f distribution_type description md5 sz
        dependencies PNone channels s
     = upload e b login package_name release basename f distribution_type description md5 sz
        dependencies (PDict []) channels s"
  by (simp add: upload_def)

theorem upload_attrs_type_error_witness:
  "PList [] \<noteq> PNone \<and> \<not> is_dict (PList [])
   \<and> upload example_env example_client ''u'' ''p'' ''1.0'' ''f.tgz'' example_fd ''conda'' []
        None None PNone (PList []) (PTuple [PStr ''main'']) (start [])
     = (Inl (TypeError ''argument attrs must be a dictionary''), start [])"
  using upload_attrs_type_error [where attrs = "PList []" and e = example_env
      and b = example_client and login = "''u''" and package_name = "''p''"
      and release = "''1.0''" and basename = "''f.tgz''" and f = example_fd
      and distribution_type = "''conda''" and description = "[]" and ?md5.0 = None
      and sz = None and dependencies = PNone and channels = "PTuple [PStr ''main'']"
      and s = "start []"]
  by simp

text \<open>
  Claim C7. With neither \<^verbatim>\<open>basename\<close> nor \<^verbatim>\<open>_id\<close>, \<^verbatim>\<open>remove_dist\<close> raises the error
  of a bad local argument, which in this client is the built-in \<^verbatim>\<open>TypeError\<close> (the
  class the specification lists as its validation error), and the state is the one
  it started in: no request was sent.
\<close>

theorem remove_dist_no_arguments:
  "remove_dist e b login package_name release None None s
   = (Inl (TypeError (''method remove_dist expects either '' @ [CHR 0x27] @ ''basename''
                      @ [CHR 0x27] @ '' or '' @ [CHR 0x27] @ ''_id'' @ [CHR 0x27]
                      @ '' arguments'')), s)"
  by (simp add: remove_dist_def)

subsection \<open>What the state keeps\<close>

text \<open>
  Only \<^const>\<open>http\<close> touches the world; the warning and the log entries extend the
  trace. These facts carry the proofs about the methods.
\<close>

lemma requests_of_append: "requests_of (xs @ ys) = requests_of xs @ requests_of ys"
  by (induction xs rule: requests_of.induct) simp_all

lemma emit_world: "world (emit ev s) = world s"
  by (simp add: emit_def)

lemma emit_trace: "trace (emit ev s) = trace s @ [ev]"
  by (simp add: emit_def)

lemma version_check_world: "world (version_check e res s) = world s"
  by (simp add: version_check_def Let_def emit_world)

lemma version_check_requests:
  "requests_of (trace (version_check e res s)) = requests_of (trace s)"
  by (simp add: version_check_def Let_def emit_trace requests_of_append)


lemma http_trace: "trace (snd (http e r s)) = trace s @ [EvRequest r]"
  by (simp add: http_def case_prod_beta)

lemma check_response_snd: "snd (check_response e res allowed s) = version_check e res s"
  by (simp add: check_response_def Let_def split: option.splits sum.splits)

lemma check_response_allowed:
  "status_code res \<in> set allowed \<Longrightarrow>
     check_response e res allowed s = (Inr (), version_check e res s)"
  by (simp add: check_response_def Let_def)

subsection \<open>The classification of a refused response\<close>

text \<open>
  Claim C5, as the code has it. A response whose status is allowed raises nothing.
  A response whose status is not allowed, and whose body does not decode or decodes
  to a dictionary, raises one API error: of the class \<^verbatim>\<open>Unauthorized\<close> for 401,
  \<^verbatim>\<open>NotFound\<close> for 404, \<^verbatim>\<open>Conflict\<close> for 409, \<^verbatim>\<open>ServerError\<close> from 500 on and
  \<^verbatim>\<open>BinstarError\<close> otherwise, carrying the status. Its message is the entry
  \<^verbatim>\<open>error\<close> of the dictionary when the body is a dictionary that has one; when the
  body does not decode, and also when it is a dictionary without that entry, the
  message is the synthesized one, \<^verbatim>\<open>short: long ([METHOD] URL -> STATUS)\<close>, with no
  space before the colon, and \<^verbatim>\<open>?\<close> and \<^verbatim>\<open>Undefined error\<close> for a status that the
  table does not list.
\<close>

theorem check_response_classified:
  "(status_code res \<in> set allowed \<longrightarrow> fst (check_response e res allowed s) = Inr ())
   \<and> (status_code res \<notin> set allowed \<and> json res = None \<longrightarrow>
        fst (check_response e res allowed s)
        = Inl (ApiError (ErrCls (status_code res)) (PStr (synthesized e res)) (status_code res)))
   \<and> (status_code res \<notin> set allowed \<and> json res = Some (PDict kvs) \<longrightarrow>
        fst (check_response e res allowed s)
        = Inl (ApiError (ErrCls (status_code res))
                 (case map_of kvs ''error'' of
                    None \<Rightarrow> PStr (synthesized e res) | Some v \<Rightarrow> v)
                 (status_code res)))
   \<and> ErrCls 401 = Unauthorized \<and> ErrCls 404 = NotFound \<and> ErrCls 409 = Conflict
   \<and> (500 \<le> st \<longrightarrow> ErrCls st = ServerError)
   \<and> (st < 500 \<and> st \<noteq> 401 \<and> st \<noteq> 404 \<and> st \<noteq> 409 \<longrightarrow> ErrCls st = BinstarError)
   \<and> synthesized e res
       = (case STATUS_CODES e (status_code res) of
            None \<Rightarrow> ''?: Undefined error''
          | Some (short, long) \<Rightarrow> short @ '': '' @ long)
         @ '' (['' @ request_method res @ ''] '' @ request_url res @ '' -> ''
         @ str_int (status_code res) @ '')''"
  by (simp add: check_response_def Let_def ErrCls_def synthesized_def
      split: option.splits prod.splits)

theorem check_response_classified_witness:
  "status_code (reply 200 None []) \<in> set [200]
   \<and> fst (check_response example_env (reply 200 None []) [200] (start [])) = Inr ()
   \<and> status_code (reply 503 None []) \<notin> set [200] \<and> json (reply 503 None []) = None
   \<and> fst (check_response example_env (reply 503 None []) [200] (start []))
       = Inl (ApiError ServerError (PStr ''?: Undefined error ([]  -> 503)'') 503)
   \<and> status_code (reply 404 (Some (PDict [(''error'', PStr ''no such package'')])) [])
       \<notin> set [200]
   \<and> json (reply 404 (Some (PDict [(''error'', PStr ''no such package'')])) [])
       = Some (PDict [(''error'', PStr ''no such package'')])
   \<and> fst (check_response example_env
             (reply 404 (Some (PDict [(''error'', PStr ''no such package'')])) [])
             [200] (start []))
       = Inl (ApiError NotFound (PStr ''no such package'') 404)
   \<and> (500::int) \<le> 503 \<and> ErrCls 503 = ServerError
   \<and> (400::int) < 500 \<and> (400::int) \<noteq> 401 \<and> (400::int) \<noteq> 404 \<and> (400::int) \<noteq> 409
   \<and> ErrCls 400 = BinstarError"
  using
    check_response_classified [where res = "reply 200 None []" and allowed = "[200]"
      and e = example_env and s = "start []" and st = 503]
    check_response_classified [where res = "reply 503 None []" and allowed = "[200]"
      and e = example_env and s = "start []" and st = 400]
    check_response_classified [where allowed = "[200]" and e = example_env
      and res = "reply 404 (Some (PDict [(''error'', PStr ''no such package'')])) []"
      and kvs = "[(''error'', PStr ''no such package'')]" and s = "start []" and st = 400]
  by (simp add: reply_def example_env_def str_int_def str_nat.simps digit_def)

text \<open>
  The claim as it is worded fails twice on a refused response. The synthesized
  message has no space before its colon; and a body that decodes, to a dictionary
  without an entry \<^verbatim>\<open>error\<close>, still gets the synthesized message, there being no
  field of the server to take.
\<close>

theorem check_response_message_counterexample:
  "fst (check_response example_env
          ((reply 409 None [])\<lparr>request_method := ''POST'',
             request_url := ''https://api.anaconda.org/stage/u/p/1.0/f.tgz''\<rparr>)
          [200] (start []))
   = Inl (ApiError Conflict
            (PStr ''Conflict: Request conflict ([POST] https://api.anaconda.org/stage/u/p/1.0/f.tgz -> 409)'')
            409)
   \<and> fst (check_response example_env
          ((reply 409 None [])\<lparr>request_method := ''POST'',
             request_url := ''https://api.anaconda.org/stage/u/p/1.0/f.tgz''\<rparr>)
          [200] (start []))
   \<noteq> Inl (ApiError Conflict
            (PStr ''Conflict : Request conflict ([POST] https://api.anaconda.org/stage/u/p/1.0/f.tgz -> 409)'')
            409)
   \<and> json (reply 400 (Some (PDict [(''detail'', PStr ''no'')])) [])
       = Some (PDict [(''detail'', PStr ''no'')])
   \<and> fst (check_response example_env
          ((reply 400 (Some (PDict [(''detail'', PStr ''no'')])) [])
             \<lparr>request_method := ''GET'', request_url := ''https://api.anaconda.org/user''\<rparr>)
          [200] (start []))
   = Inl (ApiError BinstarError
            (PStr ''Bad Request: Bad request syntax ([GET] https://api.anaconda.org/user -> 400)'')
            400)"
  by (simp add: check_response_def Let_def ErrCls_def synthesized_def version_check_def
      reply_def example_env_def start_def str_int_def str_nat.simps digit_def)

subsection \<open>What the delete operations return\<close>




subsection \<open>What download sends and returns\<close>

text \<open>
  What \<^verbatim>\<open>download\<close> does, response by response. An \<^verbatim>\<open>md5\<close> that is given (a
  non-empty string, the test is \<^verbatim>\<open>if md5:\<close>) is sent as the request header \<^verbatim>\<open>ETag\<close>
  of a \<^verbatim>\<open>GET\<close> that does not follow redirects. A response 304 makes \<^verbatim>\<open>download\<close>
  return \<^verbatim>\<open>None\<close>, and that request is the only one. A response 302 with a
  \<^verbatim>\<open>Location\<close> header makes it send a second, streaming \<^verbatim>\<open>GET\<close> to that location
  through \<^verbatim>\<open>requests.get\<close> and return the response to it. Any other status, on a
  response whose body does not decode or decodes to a dictionary, raises the API
  error of the class of that status, and no second request is sent.
\<close>

theorem download_outcomes:
  "(md5 = Some m \<and> m \<noteq> [] \<longrightarrow>
      hdrs (download_request b login package_name release basename md5) = Some [(''ETag'', m)])
   \<and> (send e (world s) (download_request b login package_name release basename md5) = (res, w1)
        \<and> status_code res = 304 \<longrightarrow>
      fst (download e b login package_name release basename md5 s) = Inr None
      \<and> requests_of (trace (snd (download e b login package_name release basename md5 s)))
        = requests_of (trace s) @ [download_request b login package_name release basename md5])
   \<and> (send e (world s) (download_request b login package_name release basename md5) = (res, w1)
        \<and> status_code res = 302 \<and> map_of (headers res) ''location'' = Some loc \<longrightarrow>
      fst (download e b login package_name release basename md5 s)
        = Inr (Some (fst (send e w1 (redirect_request loc))))
      \<and> requests_of (trace (snd (download e b login package_name release basename md5 s)))
        = requests_of (trace s) @ [download_request b login package_name release basename md5,
                                   redirect_request loc])
   \<and> (send e (world s) (download_request b login package_name release basename md5) = (res, w1)
        \<and> status_code res \<noteq> 302 \<and> status_code res \<noteq> 304
        \<and> (json res = None \<or> (\<exists>kvs. json res = Some (PDict kvs))) \<longrightarrow>
      (\<exists>msg. fst (download e b login package_name release basename md5 s)
               = Inl (ApiError (ErrCls (status_code res)) msg (status_code res)))
      \<and> requests_of (trace (snd (download e b login package_name release basename md5 s)))
        = requests_of (trace s) @ [download_request b login package_name release basename md5])
   \<and> meth (download_request b login package_name release basename md5) = ''GET''
   \<and> allow_redirects (download_request b login package_name release basename md5) = Some False
   \<and> redirect_request loc = (call Requests ''GET'' loc)\<lparr>stream := Some True\<rparr>"
  apply (intro conjI impI)
  subgoal by (simp add: download_request_def Let_def)
  subgoal by (simp add: download_def http_def check_response_allowed version_check_requests requests_of_append)
  subgoal by (simp add: download_def http_def check_response_allowed version_check_requests requests_of_append)
  subgoal by (simp add: download_def http_def check_response_allowed case_prod_beta version_check_world)
  subgoal by (simp add: download_def http_def check_response_allowed case_prod_beta version_check_requests requests_of_append)
  subgoal by (auto simp add: download_def http_def check_response_def Let_def)
  subgoal by (auto simp add: download_def http_def check_response_def Let_def version_check_requests requests_of_append)
  subgoal by (simp add: download_request_def Let_def call_def)
  subgoal by (simp add: download_request_def Let_def call_def)
  subgoal by (simp add: redirect_request_def)
  done

theorem download_outcomes_witness:
  "Some ''abc123'' = Some ''abc123'' \<and> ''abc123'' \<noteq> []
   \<and> hdrs (download_request example_client ''u'' ''p'' ''1.0'' ''f.tgz'' (Some ''abc123''))
     = Some [(''ETag'', ''abc123'')]
   \<and> status_code (fst (send example_env (world (start [reply 304 None []]))
        (download_request example_client ''u'' ''p'' ''1.0'' ''f.tgz'' (Some ''abc123'')))) = 304
   \<and> fst (download example_env example_client ''u'' ''p'' ''1.0'' ''f.tgz'' (Some ''abc123'')
          (start [reply 304 None []])) = Inr None
   \<and> requests_of (trace (snd (download example_env example_client ''u'' ''p'' ''1.0'' ''f.tgz''
          (Some ''abc123'') (start [reply 304 None []]))))
     = [download_request example_client ''u'' ''p'' ''1.0'' ''f.tgz'' (Some ''abc123'')]
   \<and> fst (download example_env example_client ''u'' ''p'' ''1.0'' ''f.tgz'' None
          (start [(reply 302 None [])\<lparr>headers := [(''location'', ''https://cdn/x'')]\<rparr>,
                  reply 200 None ''bytes'']))
     = Inr (Some ((reply 200 None ''bytes'')
                    \<lparr>request_method := ''GET'', request_url := ''https://cdn/x''\<rparr>))
   \<and> requests_of (trace (snd (download example_env example_client ''u'' ''p'' ''1.0'' ''f.tgz''
          None
          (start [(reply 302 None [])\<lparr>headers := [(''location'', ''https://cdn/x'')]\<rparr>,
                  reply 200 None ''bytes'']))))
     = [download_request example_client ''u'' ''p'' ''1.0'' ''f.tgz'' None,
        redirect_request ''https://cdn/x'']
   \<and> fst (download example_env example_client ''u'' ''p'' ''1.0'' ''f.tgz'' None
          (start [reply 404 (Some (PDict [(''error'', PStr ''gone'')])) []]))
     = Inl (ApiError NotFound (PStr ''gone'') 404)
   \<and> requests_of (trace (snd (download example_env example_client ''u'' ''p'' ''1.0'' ''f.tgz''
          None (start [reply 404 (Some (PDict [(''error'', PStr ''gone'')])) []]))))
     = [download_request example_client ''u'' ''p'' ''1.0'' ''f.tgz'' None]"
proof -
  let ?r = "download_request example_client ''u'' ''p'' ''1.0'' ''f.tgz'' (Some ''abc123'')"
  let ?q = "download_request example_client ''u'' ''p'' ''1.0'' ''f.tgz'' None"
  let ?s302 = "start [(reply 302 None [])\<lparr>headers := [(''location'', ''https://cdn/x'')]\<rparr>,
                  reply 200 None ''bytes'']"
  let ?s404 = "start [reply 404 (Some (PDict [(''error'', PStr ''gone'')])) []]"
  have a: "send example_env (world (start [reply 304 None []])) ?r
           = ((reply 304 None [])\<lparr>request_method := meth ?r, request_url := url ?r\<rparr>, [])"
    by (simp add: example_env_def scripted_def start_def)
  have b: "send example_env (world ?s302) ?q
           = ((reply 302 None [])\<lparr>headers := [(''location'', ''https://cdn/x'')],
                 request_method := meth ?q, request_url := url ?q\<rparr>, [reply 200 None ''bytes''])"
    by (simp add: example_env_def scripted_def start_def)
  have c: "send example_env (world ?s404) ?q
           = ((reply 404 (Some (PDict [(''error'', PStr ''gone'')])) [])
                \<lparr>request_method := meth ?q, request_url := url ?q\<rparr>, [])"
    by (simp add: example_env_def scripted_def start_def)
  note t1 = download_outcomes [where e = example_env and b = example_client
      and s = "start [reply 304 None []]" and login = "''u''" and package_name = "''p''"
      and release = "''1.0''" and basename = "''f.tgz''" and ?md5.0 = "Some ''abc123''"
      and m = "''abc123''"
      and res = "(reply 304 None [])\<lparr>request_method := meth ?r, request_url := url ?r\<rparr>"
      and ?w1.0 = "[]"]
  note t2 = download_outcomes [where e = example_env and b = example_client
      and s = ?s302 and login = "''u''" and package_name = "''p''"
      and release = "''1.0''" and basename = "''f.tgz''" and ?md5.0 = None
      and res = "(reply 302 None [])\<lparr>headers := [(''location'', ''https://cdn/x'')],
                 request_method := meth ?q, request_url := url ?q\<rparr>"
      and ?w1.0 = "[reply 200 None ''bytes'']" and loc = "''https://cdn/x''"]
  note t3 = download_outcomes [where e = example_env and b = example_client
      and s = ?s404 and login = "''u''" and package_name = "''p''"
      and release = "''1.0''" and basename = "''f.tgz''" and ?md5.0 = None
      and res = "(reply 404 (Some (PDict [(''error'', PStr ''gone'')])) [])
                \<lparr>request_method := meth ?q, request_url := url ?q\<rparr>"
      and ?w1.0 = "[]"]
  have e2: "fst (send example_env [reply 200 None ''bytes''] (redirect_request ''https://cdn/x''))
            = (reply 200 None ''bytes'')
                \<lparr>request_method := ''GET'', request_url := ''https://cdn/x''\<rparr>"
    by (simp add: example_env_def scripted_def redirect_request_def call_def)
  have tr: "\<And>w. requests_of (trace (start w)) = []"
    by (simp add: start_def)
  from a t1 have c1:
    "hdrs ?r = Some [(''ETag'', ''abc123'')]
     \<and> fst (download example_env example_client ''u'' ''p'' ''1.0'' ''f.tgz'' (Some ''abc123'')
            (start [reply 304 None []])) = Inr None
     \<and> requests_of (trace (snd (download example_env example_client ''u'' ''p'' ''1.0''
            ''f.tgz'' (Some ''abc123'') (start [reply 304 None []])))) = [?r]"
    by (simp add: reply_def tr)
  from b t2 have c2:
    "fst (download example_env example_client ''u'' ''p'' ''1.0'' ''f.tgz'' None ?s302)
       = Inr (Some (fst (send example_env [reply 200 None ''bytes'']
                           (redirect_request ''https://cdn/x''))))
     \<and> requests_of (trace (snd (download example_env example_client ''u'' ''p'' ''1.0''
            ''f.tgz'' None ?s302))) = [?q, redirect_request ''https://cdn/x'']"
    by (simp add: reply_def tr)
  from c t3 have c3:
    "(\<exists>msg. fst (download example_env example_client ''u'' ''p'' ''1.0'' ''f.tgz'' None ?s404)
             = Inl (ApiError (ErrCls 404) msg 404))
     \<and> requests_of (trace (snd (download example_env example_client ''u'' ''p'' ''1.0''
            ''f.tgz'' None ?s404))) = [?q]"
    by (simp add: reply_def tr)
  have d: "fst (download example_env example_client ''u'' ''p'' ''1.0'' ''f.tgz'' None ?s404)
     = Inl (ApiError NotFound (PStr ''gone'') 404)"
    by (simp add: download_def http_def check_response_def Let_def ErrCls_def reply_def
        example_env_def scripted_def start_def)
  have h: "status_code (fst (send example_env (world (start [reply 304 None []])) ?r)) = 304"
    using a by (simp add: reply_def)
  from c1 c2 c3 d e2 h show ?thesis
    by simp
qed

text \<open>
  Claim C6 says that \<^verbatim>\<open>download\<close> sends a given \<^verbatim>\<open>md5\<close> as \<^verbatim>\<open>ETag\<close>, returns
  \<^verbatim>\<open>None\<close> on 304, returns the response of a \<^verbatim>\<open>GET\<close> to the \<^verbatim>\<open>Location\<close> on 302, and
  raises a typed error on any other status. The first three parts are what the code
  does (\<open>download_outcomes\<close>). The last fails on a response whose body is JSON but
  not an object: answered with the status 500 and the body \<^verbatim>\<open>[]\<close>, \<^verbatim>\<open>download\<close>
  raises \<^verbatim>\<open>AttributeError\<close> from \<^verbatim>\<open>data.get\<close> in \<^verbatim>\<open>_check_response\<close>, where the same
  status with an object body raises \<^verbatim>\<open>ServerError\<close>. A 302 that carries no
  \<^verbatim>\<open>Location\<close> header raises \<^verbatim>\<open>KeyError\<close> and follows nothing.
\<close>

theorem download_error_body_not_object:
  "fst (download example_env example_client ''u'' ''p'' ''1.0'' ''f.tgz'' (Some ''abc123'')
          (start [reply 500 (Some (PList [])) []]))
   = Inl (AttributeError ''get'')
   \<and> fst (download example_env example_client ''u'' ''p'' ''1.0'' ''f.tgz'' (Some ''abc123'')
          (start [reply 500 (Some (PDict [(''error'', PStr ''down'')])) []]))
     = Inl (ApiError ServerError (PStr ''down'') 500)
   \<and> fst (download example_env example_client ''u'' ''p'' ''1.0'' ''f.tgz'' (Some ''abc123'')
          (start [reply 302 None [], reply 200 None ''bytes'']))
     = Inl (KeyError ''location'')"
  by (simp add: download_def download_request_def http_def check_response_def version_check_def
      Let_def ErrCls_def example_env_def scripted_def reply_def start_def call_def emit_def)

subsection \<open>Upload: what each part adds to the trace\<close>

text \<open>
  The definitions that a concrete run unfolds, collected once.
\<close>

lemmas ev = example_upload_def upload_def upload_transfer_def upload_commit_def hashing_def
  stage_request_def storage_request_def commit_request_def http_def check_response_def
  version_check_def synthesized_def ErrCls_def res_json_def emit_def call_def session_def
  example_env_def example_client_def example_fd_def init_def endswith_def scripted_def
  reply_def staged_def committed_def start_def Let_def

lemma logged_append: "logged (xs @ ys) = logged xs @ logged ys"
  by (induction xs rule: logged.induct) simp_all

lemma version_check_logged: "logged (trace (version_check e res s)) = logged (trace s)"
  by (simp add: version_check_def Let_def emit_trace logged_append)

lemma upload_commit_requests:
  "getitem obj ''dist_id'' = Inr dist_id \<Longrightarrow>
   requests_of (trace (snd (upload_commit e b obj login package_name release basename s)))
   = requests_of (trace s) @ [commit_request e b dist_id login package_name release basename]"
  by (simp add: upload_commit_def case_prod_beta http_trace check_response_snd
      version_check_requests requests_of_append split: sum.splits)

lemma upload_transfer_md5:
  "\<exists>err. upload_transfer e b obj s3url s3data login package_name release basename f (Some m) sz s
         = (Inl err, s)"
  by (simp add: upload_transfer_def hashing_def Let_def split: option.splits sum.splits)

lemma check_response_cases:
  "(status_code res \<in> set allowed \<and> check_response e res allowed s = (Inr (), version_check e res s))
   \<or> (status_code res \<notin> set allowed
        \<and> (\<exists>err. check_response e res allowed s = (Inl err, version_check e res s)))"
  by (simp add: check_response_def Let_def split: option.splits sum.splits)

lemma filter_update_other:
  "(\<And>v'. \<not> P (k, v')) \<Longrightarrow> filter P (AList.update k v al) = filter P al"
  by (induction al) auto

lemma emit_logged: "logged (trace (emit ev s)) = logged (trace s) @ logged [ev]"
  by (simp add: emit_trace logged_append)

lemma emit_requests: "requests_of (trace (emit ev s)) = requests_of (trace s) @ requests_of [ev]"
  by (simp add: emit_trace requests_of_append)

subsection \<open>Upload: the storage transfer and the commit\<close>

text \<open>
  Claim C4, as the code has it. Take an upload that reaches the storage: the stage
  answered 200 with a dictionary that has a string \<^verbatim>\<open>post_url\<close> and a dictionary
  \<^verbatim>\<open>form_data\<close>, and no digest was supplied. When the storage answers with a status
  other than 201, \<^verbatim>\<open>upload\<close> writes the body of that response to the log, followed by
  two empty lines, and raises \<^verbatim>\<open>BinstarError('Error uploading package', status)\<close>:
  the error carries the fixed message and the status, not the body. The stage and
  the storage requests are the only ones, so no commit was sent. When the storage
  answers 201, the rest of the upload is the commit part, run in the world the
  storage left; if the stage response has a \<^verbatim>\<open>dist_id\<close>, the third request is the
  commit.
\<close>

theorem upload_storage_outcomes:
  assumes "attrs1 = (if attrs = PNone then PDict [] else attrs)"
    and "is_dict attrs1"
    and "send e (world s) (stage_request e b login package_name release basename
           distribution_type description dependencies attrs1 channels) = (res, w1)"
    and "status_code res = 200"
    and "json res = Some (PDict obj)"
    and "map_of obj ''post_url'' = Some (PStr u)"
    and "map_of obj ''form_data'' = Some (PDict form)"
    and "compute_hash e f sz = ((hexmd5, b64md5, size1), f1)"
    and "s3data = PDict (AList.update ''Content-MD5'' (PStr b64md5)
                           (AList.update ''Content-Length'' (PInt size1) form))"
    and "send e w1 (storage_request e b u s3data basename f1) = (s3res, w2)"
  shows "(status_code s3res \<noteq> 201 \<longrightarrow>
            fst (upload e b login package_name release basename f distribution_type
                   description None sz dependencies attrs channels s)
            = Inl (ApiError BinstarError (PStr ''Error uploading package'') (status_code s3res))
          \<and> requests_of (trace (snd (upload e b login package_name release basename f
                 distribution_type description None sz dependencies attrs channels s)))
            = requests_of (trace s)
              @ [stage_request e b login package_name release basename distribution_type
                   description dependencies attrs1 channels,
                 storage_request e b u s3data basename f1]
          \<and> logged (trace (snd (upload e b login package_name release basename f
                 distribution_type description None sz dependencies attrs channels s)))
            = logged (trace s) @ [body_text s3res, [], []])
       \<and> (status_code s3res = 201 \<longrightarrow>
            (\<exists>s3. world s3 = w2
               \<and> requests_of (trace s3)
                 = requests_of (trace s)
                   @ [stage_request e b login package_name release basename distribution_type
                        description dependencies attrs1 channels,
                      storage_request e b u s3data basename f1]
               \<and> upload e b login package_name release basename f distribution_type
                   description None sz dependencies attrs channels s
                 = upload_commit e b (PDict obj) login package_name release basename s3))
       \<and> (status_code s3res = 201 \<and> map_of obj ''dist_id'' = Some dist_id \<longrightarrow>
            requests_of (trace (snd (upload e b login package_name release basename f
                 distribution_type description None sz dependencies attrs channels s)))
            = requests_of (trace s)
              @ [stage_request e b login package_name release basename distribution_type
                   description dependencies attrs1 channels,
                 storage_request e b u s3data basename f1,
                 commit_request e b dist_id login package_name release basename])"
proof -
  let ?sr = "stage_request e b login package_name release basename distribution_type
               description dependencies attrs1 channels"
  let ?s1 = "\<lparr>world = w1, trace = trace s @ [EvRequest ?sr]\<rparr>"
  let ?s2 = "emit (EvStreamMultipart s3data basename f1)
               (emit (EvComputeHash f sz) (version_check e res ?s1))"
  let ?s3 = "\<lparr>world = w2,
              trace = trace ?s2 @ [EvRequest (storage_request e b u s3data basename f1)]\<rparr>"
  let ?up = "upload e b login package_name release basename f distribution_type
                   description None sz dependencies attrs channels s"
  have w2: "world ?s2 = w1"
    by (simp add: emit_world version_check_world)
  have staged: "?up = upload_transfer e b (PDict obj) (PStr u) (PDict form) login package_name
                   release basename f None sz (version_check e res ?s1)"
    using assms(1-7)
    by (simp add: upload_def Let_def http_def check_response_allowed res_json_def
        split del: if_split)
  have transfer: "?up = (if status_code s3res \<noteq> 201
                   then (Inl (ApiError BinstarError (PStr ''Error uploading package'')
                                (status_code s3res)),
                         emit (EvLog []) (emit (EvLog []) (emit (EvLog (body_text s3res)) ?s3)))
                   else upload_commit e b (PDict obj) login package_name release basename ?s3)"
    using assms(8-10) w2
    by (simp add: staged upload_transfer_def hashing_def Let_def http_def)
  have r3: "requests_of (trace ?s3)
            = requests_of (trace s) @ [?sr, storage_request e b u s3data basename f1]"
    by (simp add: emit_trace requests_of_append version_check_requests)
  have l3: "logged (trace ?s3) = logged (trace s)"
    by (simp add: emit_trace logged_append version_check_logged)
  have a: "status_code s3res \<noteq> 201 \<longrightarrow>
            fst ?up = Inl (ApiError BinstarError (PStr ''Error uploading package'') (status_code s3res))
          \<and> requests_of (trace (snd ?up))
            = requests_of (trace s) @ [?sr, storage_request e b u s3data basename f1]
          \<and> logged (trace (snd ?up)) = logged (trace s) @ [body_text s3res, [], []]"
    using r3 l3 by (simp add: transfer emit_requests emit_logged)
  have b: "status_code s3res = 201 \<longrightarrow>
            (\<exists>s3. world s3 = w2
               \<and> requests_of (trace s3)
                 = requests_of (trace s) @ [?sr, storage_request e b u s3data basename f1]
               \<and> ?up = upload_commit e b (PDict obj) login package_name release basename s3)"
  proof
    assume "status_code s3res = 201"
    with transfer r3 show "\<exists>s3. world s3 = w2
               \<and> requests_of (trace s3)
                 = requests_of (trace s) @ [?sr, storage_request e b u s3data basename f1]
               \<and> ?up = upload_commit e b (PDict obj) login package_name release basename s3"
      by (intro exI [of _ ?s3]) simp
  qed
  have c: "status_code s3res = 201 \<and> map_of obj ''dist_id'' = Some dist_id \<longrightarrow>
            requests_of (trace (snd ?up))
            = requests_of (trace s) @ [?sr, storage_request e b u s3data basename f1,
                 commit_request e b dist_id login package_name release basename]"
  proof
    assume h: "status_code s3res = 201 \<and> map_of obj ''dist_id'' = Some dist_id"
    then have "getitem (PDict obj) ''dist_id'' = Inr dist_id" by simp
    from upload_commit_requests [OF this, of e b login package_name release basename ?s3] h r3
    show "requests_of (trace (snd ?up))
            = requests_of (trace s) @ [?sr, storage_request e b u s3data basename f1,
                 commit_request e b dist_id login package_name release basename]"
      by (simp add: transfer)
  qed
  from a b c show ?thesis by blast
qed



theorem upload_storage_outcomes_witness:
  "send example_env (world (start [staged, reply 500 None ''boom'', committed])) (stage_request example_env example_client ''u'' ''p'' ''1.0'' ''f.tgz'' ''conda'' [] PNone (PDict []) (PTuple [PStr ''main'']))
     = (staged\<lparr>request_method := meth (stage_request example_env example_client ''u'' ''p'' ''1.0'' ''f.tgz'' ''conda'' [] PNone (PDict []) (PTuple [PStr ''main''])), request_url := url (stage_request example_env example_client ''u'' ''p'' ''1.0'' ''f.tgz'' ''conda'' [] PNone (PDict []) (PTuple [PStr ''main'']))\<rparr>, [reply 500 None ''boom'', committed])
   \<and> status_code (staged\<lparr>request_method := meth (stage_request example_env example_client ''u'' ''p'' ''1.0'' ''f.tgz'' ''conda'' [] PNone (PDict []) (PTuple [PStr ''main''])), request_url := url (stage_request example_env example_client ''u'' ''p'' ''1.0'' ''f.tgz'' ''conda'' [] PNone (PDict []) (PTuple [PStr ''main'']))\<rparr>) = 200
   \<and> send example_env [reply 500 None ''boom'', committed] (storage_request example_env example_client ''https://s3/x'' (PDict (AList.update ''Content-MD5'' (PStr ''1B2M2Y8A'') (AList.update ''Content-Length'' (PInt 3) [(''key'', PStr ''u/p/f.tgz''), (''Content-Length'', PInt 0), (''acl'', PStr ''private'')]))) ''f.tgz'' example_fd)
     = ((reply 500 None ''boom'')\<lparr>request_method := meth (storage_request example_env example_client ''https://s3/x'' (PDict (AList.update ''Content-MD5'' (PStr ''1B2M2Y8A'') (AList.update ''Content-Length'' (PInt 3) [(''key'', PStr ''u/p/f.tgz''), (''Content-Length'', PInt 0), (''acl'', PStr ''private'')]))) ''f.tgz'' example_fd), request_url := url (storage_request example_env example_client ''https://s3/x'' (PDict (AList.update ''Content-MD5'' (PStr ''1B2M2Y8A'') (AList.update ''Content-Length'' (PInt 3) [(''key'', PStr ''u/p/f.tgz''), (''Content-Length'', PInt 0), (''acl'', PStr ''private'')]))) ''f.tgz'' example_fd)\<rparr>, [committed])
   \<and> status_code ((reply 500 None ''boom'')\<lparr>request_method := meth (storage_request example_env example_client ''https://s3/x'' (PDict (AList.update ''Content-MD5'' (PStr ''1B2M2Y8A'') (AList.update ''Content-Length'' (PInt 3) [(''key'', PStr ''u/p/f.tgz''), (''Content-Length'', PInt 0), (''acl'', PStr ''private'')]))) ''f.tgz'' example_fd), request_url := url (storage_request example_env example_client ''https://s3/x'' (PDict (AList.update ''Content-MD5'' (PStr ''1B2M2Y8A'') (AList.update ''Content-Length'' (PInt 3) [(''key'', PStr ''u/p/f.tgz''), (''Content-Length'', PInt 0), (''acl'', PStr ''private'')]))) ''f.tgz'' example_fd)\<rparr>) \<noteq> 201
   \<and> fst (upload example_env example_client ''u'' ''p'' ''1.0'' ''f.tgz'' example_fd ''conda'' [] None None PNone PNone (PTuple [PStr ''main'']) (start [staged, reply 500 None ''boom'', committed]))
     = Inl (ApiError BinstarError (PStr ''Error uploading package'') 500)
   \<and> requests_of (trace (snd (upload example_env example_client ''u'' ''p'' ''1.0'' ''f.tgz'' example_fd ''conda'' [] None None PNone PNone (PTuple [PStr ''main'']) (start [staged, reply 500 None ''boom'', committed]))))
     = [stage_request example_env example_client ''u'' ''p'' ''1.0'' ''f.tgz'' ''conda'' [] PNone (PDict []) (PTuple [PStr ''main'']), storage_request example_env example_client ''https://s3/x'' (PDict (AList.update ''Content-MD5'' (PStr ''1B2M2Y8A'') (AList.update ''Content-Length'' (PInt 3) [(''key'', PStr ''u/p/f.tgz''), (''Content-Length'', PInt 0), (''acl'', PStr ''private'')]))) ''f.tgz'' example_fd]
   \<and> logged (trace (snd (upload example_env example_client ''u'' ''p'' ''1.0'' ''f.tgz'' example_fd ''conda'' [] None None PNone PNone (PTuple [PStr ''main'']) (start [staged, reply 500 None ''boom'', committed])))) = [''boom'', [], []]
   \<and> status_code ((reply 201 None [])\<lparr>request_method := meth (storage_request example_env example_client ''https://s3/x'' (PDict (AList.update ''Content-MD5'' (PStr ''1B2M2Y8A'') (AList.update ''Content-Length'' (PInt 3) [(''key'', PStr ''u/p/f.tgz''), (''Content-Length'', PInt 0), (''acl'', PStr ''private'')]))) ''f.tgz'' example_fd), request_url := url (storage_request example_env example_client ''https://s3/x'' (PDict (AList.update ''Content-MD5'' (PStr ''1B2M2Y8A'') (AList.update ''Content-Length'' (PInt 3) [(''key'', PStr ''u/p/f.tgz''), (''Content-Length'', PInt 0), (''acl'', PStr ''private'')]))) ''f.tgz'' example_fd)\<rparr>) = 201
   \<and> requests_of (trace (snd (upload example_env example_client ''u'' ''p'' ''1.0'' ''f.tgz'' example_fd ''conda'' [] None None PNone PNone (PTuple [PStr ''main'']) (start [staged, reply 201 None [], committed]))))
     = [stage_request example_env example_client ''u'' ''p'' ''1.0'' ''f.tgz'' ''conda'' [] PNone (PDict []) (PTuple [PStr ''main'']), storage_request example_env example_client ''https://s3/x'' (PDict (AList.update ''Content-MD5'' (PStr ''1B2M2Y8A'') (AList.update ''Content-Length'' (PInt 3) [(''key'', PStr ''u/p/f.tgz''), (''Content-Length'', PInt 0), (''acl'', PStr ''private'')]))) ''f.tgz'' example_fd, commit_request example_env example_client (PStr ''abc'') ''u'' ''p'' ''1.0'' ''f.tgz'']"
proof -
  have h1: "PDict [] = (if PNone = PNone then PDict [] else PNone)" by simp
  have h2: "is_dict (PDict [])" by simp
  have h4: "status_code (staged\<lparr>request_method := meth (stage_request example_env example_client ''u'' ''p'' ''1.0'' ''f.tgz'' ''conda'' [] PNone (PDict []) (PTuple [PStr ''main''])), request_url := url (stage_request example_env example_client ''u'' ''p'' ''1.0'' ''f.tgz'' ''conda'' [] PNone (PDict []) (PTuple [PStr ''main'']))\<rparr>) = 200"
    by (simp add: staged_def reply_def)
  have h5: "json (staged\<lparr>request_method := meth (stage_request example_env example_client ''u'' ''p'' ''1.0'' ''f.tgz'' ''conda'' [] PNone (PDict []) (PTuple [PStr ''main''])), request_url := url (stage_request example_env example_client ''u'' ''p'' ''1.0'' ''f.tgz'' ''conda'' [] PNone (PDict []) (PTuple [PStr ''main'']))\<rparr>) = Some (PDict [(''post_url'', PStr ''https://s3/x''), (''form_data'', PDict [(''key'', PStr ''u/p/f.tgz''), (''Content-Length'', PInt 0), (''acl'', PStr ''private'')]), (''dist_id'', PStr ''abc'')])"
    by (simp add: staged_def reply_def)
  have h6: "map_of [(''post_url'', PStr ''https://s3/x''), (''form_data'', PDict [(''key'', PStr ''u/p/f.tgz''), (''Content-Length'', PInt 0), (''acl'', PStr ''private'')]), (''dist_id'', PStr ''abc'')] ''post_url'' = Some (PStr ''https://s3/x'')" by simp
  have h7: "map_of [(''post_url'', PStr ''https://s3/x''), (''form_data'', PDict [(''key'', PStr ''u/p/f.tgz''), (''Content-Length'', PInt 0), (''acl'', PStr ''private'')]), (''dist_id'', PStr ''abc'')] ''form_data'' = Some (PDict [(''key'', PStr ''u/p/f.tgz''), (''Content-Length'', PInt 0), (''acl'', PStr ''private'')])" by simp
  have h8: "compute_hash example_env example_fd None = ((''d41d8cd9'', ''1B2M2Y8A'', 3), example_fd)"
    by (simp add: example_env_def example_fd_def)
  have h9: "PDict (AList.update ''Content-MD5'' (PStr ''1B2M2Y8A'') (AList.update ''Content-Length'' (PInt 3) [(''key'', PStr ''u/p/f.tgz''), (''Content-Length'', PInt 0), (''acl'', PStr ''private'')])) = PDict (AList.update ''Content-MD5'' (PStr ''1B2M2Y8A'') (AList.update ''Content-Length'' (PInt 3) [(''key'', PStr ''u/p/f.tgz''), (''Content-Length'', PInt 0), (''acl'', PStr ''private'')]))" by (rule refl)

  have a3: "send example_env (world (start [staged, reply 500 None ''boom'', committed])) (stage_request example_env example_client ''u'' ''p'' ''1.0'' ''f.tgz'' ''conda'' [] PNone (PDict []) (PTuple [PStr ''main'']))
      = (staged\<lparr>request_method := meth (stage_request example_env example_client ''u'' ''p'' ''1.0'' ''f.tgz'' ''conda'' [] PNone (PDict []) (PTuple [PStr ''main''])), request_url := url (stage_request example_env example_client ''u'' ''p'' ''1.0'' ''f.tgz'' ''conda'' [] PNone (PDict []) (PTuple [PStr ''main'']))\<rparr>, [reply 500 None ''boom'', committed])"
    by (simp add: example_env_def scripted_def start_def)
  have a10: "send example_env [reply 500 None ''boom'', committed] (storage_request example_env example_client ''https://s3/x'' (PDict (AList.update ''Content-MD5'' (PStr ''1B2M2Y8A'') (AList.update ''Content-Length'' (PInt 3) [(''key'', PStr ''u/p/f.tgz''), (''Content-Length'', PInt 0), (''acl'', PStr ''private'')]))) ''f.tgz'' example_fd)
      = ((reply 500 None ''boom'')\<lparr>request_method := meth (storage_request example_env example_client ''https://s3/x'' (PDict (AList.update ''Content-MD5'' (PStr ''1B2M2Y8A'') (AList.update ''Content-Length'' (PInt 3) [(''key'', PStr ''u/p/f.tgz''), (''Content-Length'', PInt 0), (''acl'', PStr ''private'')]))) ''f.tgz'' example_fd), request_url := url (storage_request example_env example_client ''https://s3/x'' (PDict (AList.update ''Content-MD5'' (PStr ''1B2M2Y8A'') (AList.update ''Content-Length'' (PInt 3) [(''key'', PStr ''u/p/f.tgz''), (''Content-Length'', PInt 0), (''acl'', PStr ''private'')]))) ''f.tgz'' example_fd)\<rparr>, [committed])"
    by (simp add: example_env_def scripted_def)
  note a = upload_storage_outcomes [OF h1 h2 a3 h4 h5 h6 h7 h8 h9 a10,
      where dist_id = "PStr ''abc''"]


  have b3: "send example_env (world (start [staged, reply 201 None [], committed])) (stage_request example_env example_client ''u'' ''p'' ''1.0'' ''f.tgz'' ''conda'' [] PNone (PDict []) (PTuple [PStr ''main'']))
      = (staged\<lparr>request_method := meth (stage_request example_env example_client ''u'' ''p'' ''1.0'' ''f.tgz'' ''conda'' [] PNone (PDict []) (PTuple [PStr ''main''])), request_url := url (stage_request example_env example_client ''u'' ''p'' ''1.0'' ''f.tgz'' ''conda'' [] PNone (PDict []) (PTuple [PStr ''main'']))\<rparr>, [reply 201 None [], committed])"
    by (simp add: example_env_def scripted_def start_def)
  have b10: "send example_env [reply 201 None [], committed] (storage_request example_env example_client ''https://s3/x'' (PDict (AList.update ''Content-MD5'' (PStr ''1B2M2Y8A'') (AList.update ''Content-Length'' (PInt 3) [(''key'', PStr ''u/p/f.tgz''), (''Content-Length'', PInt 0), (''acl'', PStr ''private'')]))) ''f.tgz'' example_fd)
      = ((reply 201 None [])\<lparr>request_method := meth (storage_request example_env example_client ''https://s3/x'' (PDict (AList.update ''Content-MD5'' (PStr ''1B2M2Y8A'') (AList.update ''Content-Length'' (PInt 3) [(''key'', PStr ''u/p/f.tgz''), (''Content-Length'', PInt 0), (''acl'', PStr ''private'')]))) ''f.tgz'' example_fd), request_url := url (storage_request example_env example_client ''https://s3/x'' (PDict (AList.update ''Content-MD5'' (PStr ''1B2M2Y8A'') (AList.update ''Content-Length'' (PInt 3) [(''key'', PStr ''u/p/f.tgz''), (''Content-Length'', PInt 0), (''acl'', PStr ''private'')]))) ''f.tgz'' example_fd)\<rparr>, [committed])"
    by (simp add: example_env_def scripted_def)
  note b = upload_storage_outcomes [OF h1 h2 b3 h4 h5 h6 h7 h8 h9 b10,
      where dist_id = "PStr ''abc''"]

  have d: "map_of [(''post_url'', PStr ''https://s3/x''), (''form_data'', PDict [(''key'', PStr ''u/p/f.tgz''), (''Content-Length'', PInt 0), (''acl'', PStr ''private'')]), (''dist_id'', PStr ''abc'')] ''dist_id'' = Some (PStr ''abc'')" by simp
  have e5: "status_code ((reply 500 None ''boom'')\<lparr>request_method := meth (storage_request example_env example_client ''https://s3/x'' (PDict (AList.update ''Content-MD5'' (PStr ''1B2M2Y8A'') (AList.update ''Content-Length'' (PInt 3) [(''key'', PStr ''u/p/f.tgz''), (''Content-Length'', PInt 0), (''acl'', PStr ''private'')]))) ''f.tgz'' example_fd), request_url := url (storage_request example_env example_client ''https://s3/x'' (PDict (AList.update ''Content-MD5'' (PStr ''1B2M2Y8A'') (AList.update ''Content-Length'' (PInt 3) [(''key'', PStr ''u/p/f.tgz''), (''Content-Length'', PInt 0), (''acl'', PStr ''private'')]))) ''f.tgz'' example_fd)\<rparr>) = 500"
       "body_text ((reply 500 None ''boom'')\<lparr>request_method := meth (storage_request example_env example_client ''https://s3/x'' (PDict (AList.update ''Content-MD5'' (PStr ''1B2M2Y8A'') (AList.update ''Content-Length'' (PInt 3) [(''key'', PStr ''u/p/f.tgz''), (''Content-Length'', PInt 0), (''acl'', PStr ''private'')]))) ''f.tgz'' example_fd), request_url := url (storage_request example_env example_client ''https://s3/x'' (PDict (AList.update ''Content-MD5'' (PStr ''1B2M2Y8A'') (AList.update ''Content-Length'' (PInt 3) [(''key'', PStr ''u/p/f.tgz''), (''Content-Length'', PInt 0), (''acl'', PStr ''private'')]))) ''f.tgz'' example_fd)\<rparr>) = ''boom''"
    by (simp_all add: reply_def)
  have e2: "status_code ((reply 201 None [])\<lparr>request_method := meth (storage_request example_env example_client ''https://s3/x'' (PDict (AList.update ''Content-MD5'' (PStr ''1B2M2Y8A'') (AList.update ''Content-Length'' (PInt 3) [(''key'', PStr ''u/p/f.tgz''), (''Content-Length'', PInt 0), (''acl'', PStr ''private'')]))) ''f.tgz'' example_fd), request_url := url (storage_request example_env example_client ''https://s3/x'' (PDict (AList.update ''Content-MD5'' (PStr ''1B2M2Y8A'') (AList.update ''Content-Length'' (PInt 3) [(''key'', PStr ''u/p/f.tgz''), (''Content-Length'', PInt 0), (''acl'', PStr ''private'')]))) ''f.tgz'' example_fd)\<rparr>) = 201"
    by (simp add: reply_def)
  have tr: "\<And>w. trace (start w) = []" by (simp add: start_def)
  from a have ca:
    "fst (upload example_env example_client ''u'' ''p'' ''1.0'' ''f.tgz'' example_fd ''conda'' [] None None PNone PNone (PTuple [PStr ''main'']) (start [staged, reply 500 None ''boom'', committed]))
       = Inl (ApiError BinstarError (PStr ''Error uploading package'') 500)
     \<and> requests_of (trace (snd (upload example_env example_client ''u'' ''p'' ''1.0'' ''f.tgz'' example_fd ''conda'' [] None None PNone PNone (PTuple [PStr ''main'']) (start [staged, reply 500 None ''boom'', committed]))))
       = [stage_request example_env example_client ''u'' ''p'' ''1.0'' ''f.tgz'' ''conda'' [] PNone (PDict []) (PTuple [PStr ''main'']), storage_request example_env example_client ''https://s3/x'' (PDict (AList.update ''Content-MD5'' (PStr ''1B2M2Y8A'') (AList.update ''Content-Length'' (PInt 3) [(''key'', PStr ''u/p/f.tgz''), (''Content-Length'', PInt 0), (''acl'', PStr ''private'')]))) ''f.tgz'' example_fd]
     \<and> logged (trace (snd (upload example_env example_client ''u'' ''p'' ''1.0'' ''f.tgz'' example_fd ''conda'' [] None None PNone PNone (PTuple [PStr ''main'']) (start [staged, reply 500 None ''boom'', committed])))) = [''boom'', [], []]"
    by (simp only: e5 tr) simp
  from b d have cb:
    "requests_of (trace (snd (upload example_env example_client ''u'' ''p'' ''1.0'' ''f.tgz'' example_fd ''conda'' [] None None PNone PNone (PTuple [PStr ''main'']) (start [staged, reply 201 None [], committed]))))
     = [stage_request example_env example_client ''u'' ''p'' ''1.0'' ''f.tgz'' ''conda'' [] PNone (PDict []) (PTuple [PStr ''main'']), storage_request example_env example_client ''https://s3/x'' (PDict (AList.update ''Content-MD5'' (PStr ''1B2M2Y8A'') (AList.update ''Content-Length'' (PInt 3) [(''key'', PStr ''u/p/f.tgz''), (''Content-Length'', PInt 0), (''acl'', PStr ''private'')]))) ''f.tgz'' example_fd, commit_request example_env example_client (PStr ''abc'') ''u'' ''p'' ''1.0'' ''f.tgz'']"
    by (simp only: e2 tr) simp
  from a3 h4 a10 e5 e2 ca cb show ?thesis
    by simp
qed

text \<open>
  The claim as it is worded fails on the payload of the error. A storage that answers
  500 with the body \<open>boom\<close> makes \<^verbatim>\<open>upload\<close> raise the error with the fixed message and
  the status; the same error is raised for any other body, so the error does not carry
  the body. The body goes to the log.
\<close>

theorem upload_storage_error_counterexample:
  "fst (example_upload None None [staged, reply 500 None ''boom'', committed])
   = Inl (ApiError BinstarError (PStr ''Error uploading package'') 500)
   \<and> fst (example_upload None None [staged, reply 500 None ''boom'', committed])
     = fst (example_upload None None [staged, reply 500 None ''another body'', committed])
   \<and> logged (trace (snd (example_upload None None [staged, reply 500 None ''boom'', committed])))
     = [''boom'', [], []]"
  by (simp add: ev)

subsection \<open>Upload: the form sent to the storage\<close>

text \<open>
  An upload that reaches the hashing without a supplied digest sends, as its second
  request, a \<^verbatim>\<open>POST\<close> to the \<^verbatim>\<open>post_url\<close> through \<^verbatim>\<open>requests.post\<close> whose body and
  headers are what \<^verbatim>\<open>stream_multipart\<close> returns for a form. That form is the
  \<^verbatim>\<open>form_data\<close> of the stage response with \<^verbatim>\<open>Content-Length\<close> set to the size and
  \<^verbatim>\<open>Content-MD5\<close> set to the base64 digest that \<^verbatim>\<open>compute_hash\<close> returned; every
  other key has the value the stage response gave it, and the other entries stand in
  the order they came in.
\<close>

lemma upload_commit_requests_prefix:
  "\<exists>rest. requests_of (trace (snd (upload_commit e b obj login package_name release basename s)))
          = requests_of (trace s) @ rest"
  by (simp add: upload_commit_def case_prod_beta http_trace check_response_snd
      version_check_requests requests_of_append split: sum.splits)

lemma upload_encodes_staged_form:
  assumes "attrs1 = (if attrs = PNone then PDict [] else attrs)"
    and "is_dict attrs1"
    and "send e (world s) (stage_request e b login package_name release basename
           distribution_type description dependencies attrs1 channels) = (res, w1)"
    and "status_code res = 200"
    and "json res = Some (PDict obj)"
    and "map_of obj ''post_url'' = Some (PStr u)"
    and "map_of obj ''form_data'' = Some (PDict form)"
    and "compute_hash e f sz = ((hexmd5, b64md5, size1), f1)"
  shows "\<exists>form' r rest.
           requests_of (trace (snd (upload e b login package_name release basename f
               distribution_type description None sz dependencies attrs channels s)))
           = requests_of (trace s)
             @ stage_request e b login package_name release basename distribution_type
                 description dependencies attrs1 channels # r # rest
           \<and> channel r = Requests \<and> meth r = ''POST'' \<and> url r = u
           \<and> data r = Some (fst (stream_multipart e (PDict form') basename f1))
           \<and> hdrs r = Some (snd (stream_multipart e (PDict form') basename f1))
           \<and> map_of form' ''Content-Length'' = Some (PInt size1)
           \<and> map_of form' ''Content-MD5'' = Some (PStr b64md5)
           \<and> (\<forall>k. k \<noteq> ''Content-Length'' \<and> k \<noteq> ''Content-MD5'' \<longrightarrow>
                  map_of form' k = map_of form k)
           \<and> filter (\<lambda>kv. fst kv \<noteq> ''Content-Length'' \<and> fst kv \<noteq> ''Content-MD5'') form'
               = filter (\<lambda>kv. fst kv \<noteq> ''Content-Length'' \<and> fst kv \<noteq> ''Content-MD5'') form"
proof -
  let ?form' = "AList.update ''Content-MD5'' (PStr b64md5)
                  (AList.update ''Content-Length'' (PInt size1) form)"
  let ?sr = "stage_request e b login package_name release basename distribution_type
               description dependencies attrs1 channels"
  let ?r = "storage_request e b u (PDict ?form') basename f1"
  let ?s1 = "\<lparr>world = w1, trace = trace s @ [EvRequest ?sr]\<rparr>"
  let ?s2 = "emit (EvStreamMultipart (PDict ?form') basename f1)
               (emit (EvComputeHash f sz) (version_check e res ?s1))"
  let ?up = "upload e b login package_name release basename f distribution_type
                   description None sz dependencies attrs channels s"
  obtain s3res w2 where st: "send e w1 ?r = (s3res, w2)"
    by (cases "send e w1 ?r") simp
  let ?s3 = "\<lparr>world = w2, trace = trace ?s2 @ [EvRequest ?r]\<rparr>"
  have w2: "world ?s2 = w1"
    by (simp add: emit_world version_check_world)
  have staged: "?up = upload_transfer e b (PDict obj) (PStr u) (PDict form) login package_name
                   release basename f None sz (version_check e res ?s1)"
    using assms(1-7)
    by (simp add: upload_def Let_def http_def check_response_allowed res_json_def
        split del: if_split)
  have transfer: "?up = (if status_code s3res \<noteq> 201
                   then (Inl (ApiError BinstarError (PStr ''Error uploading package'')
                                (status_code s3res)),
                         emit (EvLog []) (emit (EvLog []) (emit (EvLog (body_text s3res)) ?s3)))
                   else upload_commit e b (PDict obj) login package_name release basename ?s3)"
    using assms(8) st w2
    by (simp add: staged upload_transfer_def hashing_def Let_def http_def)
  have r3: "requests_of (trace ?s3) = requests_of (trace s) @ [?sr, ?r]"
    by (simp add: emit_trace requests_of_append version_check_requests)
  from upload_commit_requests_prefix [of e b "PDict obj" login package_name release basename ?s3]
  obtain rest0 where
    c: "requests_of (trace (snd (upload_commit e b (PDict obj) login package_name release
            basename ?s3))) = requests_of (trace ?s3) @ rest0"
    by blast
  have "\<exists>rest. requests_of (trace (snd ?up)) = requests_of (trace s) @ ?sr # ?r # rest"
  proof (cases "status_code s3res = 201")
    case True
    with transfer c r3 show ?thesis by simp
  next
    case False
    with transfer r3 show ?thesis by (simp add: emit_requests)
  qed
  then obtain rest where
    rq: "requests_of (trace (snd ?up)) = requests_of (trace s) @ ?sr # ?r # rest"
    by blast
  have fields: "channel ?r = Requests \<and> meth ?r = ''POST'' \<and> url ?r = u
       \<and> data ?r = Some (fst (stream_multipart e (PDict ?form') basename f1))
       \<and> hdrs ?r = Some (snd (stream_multipart e (PDict ?form') basename f1))"
    by (simp add: storage_request_def call_def case_prod_beta)
  have fr: "filter (\<lambda>kv. fst kv \<noteq> ''Content-Length'' \<and> fst kv \<noteq> ''Content-MD5'') ?form'
            = filter (\<lambda>kv. fst kv \<noteq> ''Content-Length'' \<and> fst kv \<noteq> ''Content-MD5'') form"
    by (simp add: filter_update_other)
  have mp: "map_of ?form' ''Content-Length'' = Some (PInt size1)
       \<and> map_of ?form' ''Content-MD5'' = Some (PStr b64md5)
       \<and> (\<forall>k. k \<noteq> ''Content-Length'' \<and> k \<noteq> ''Content-MD5'' \<longrightarrow>
                  map_of ?form' k = map_of form k)"
    by (simp add: update_conv')
  from rq fields fr mp show ?thesis
    by (intro exI [of _ ?form'] exI [of _ ?r] exI [of _ rest]) simp
qed

text \<open>
  Claim C2 says that, for every stage response, \<^verbatim>\<open>upload\<close> sets exactly the keys
  \<^verbatim>\<open>Content-Length\<close> and \<^verbatim>\<open>Content-MD5\<close> of the form, from the computed or supplied
  digest and size, and passes the form with every other entry unchanged to the
  encoder. Without a supplied digest the code does so
  (\<open>upload_encodes_staged_form\<close>). With a supplied digest it does not: it sets
  \<^verbatim>\<open>Content-Length\<close>, then reads the unassigned \<^verbatim>\<open>b64md5\<close> and raises
  \<^verbatim>\<open>UnboundLocalError\<close>. The stage request is the only request, the prepared storage
  and commit responses are left unread, and no form is encoded. The same upload
  without the digest sends its three requests.
\<close>

theorem upload_md5_supplied_form_not_encoded:
  "fst (example_upload (Some ''900150983cd24fb0d6963f7d28e17f72'') None
          [staged, reply 201 None [], committed])
   = Inl (UnboundLocalError ''b64md5'')
   \<and> requests_of (trace (snd (example_upload (Some ''900150983cd24fb0d6963f7d28e17f72'') None
          [staged, reply 201 None [], committed])))
     = [stage_request example_env example_client ''u'' ''p'' ''1.0'' ''f.tgz'' ''conda'' []
          PNone (PDict []) (PTuple [PStr ''main''])]
   \<and> world (snd (example_upload (Some ''900150983cd24fb0d6963f7d28e17f72'') None
          [staged, reply 201 None [], committed]))
     = [reply 201 None [], committed]
   \<and> map url (requests_of (trace (snd (example_upload None None
          [staged, reply 201 None [], committed]))))
     = [''https://api.anaconda.org/stage/u/p/1.0/f.tgz'', ''https://s3/x'',
        ''https://api.anaconda.org/commit/u/p/1.0/f.tgz'']"
  by (simp add: ev)

subsection \<open>Upload: a refused stage, and a supplied digest\<close>

text \<open>
  Two facts about every upload with well-formed \<^verbatim>\<open>attrs\<close>. When the stage response
  has a status other than 200, \<^verbatim>\<open>upload\<close> raises what \<^verbatim>\<open>_check_response\<close> raises for
  that response, and the stage request is the only request. And an upload that is
  given a digest never returns a value.
\<close>

lemma check_response_fst:
  "fst (check_response e res allowed s) = fst (check_response e res allowed s')"
  by (simp add: check_response_def Let_def split: option.splits sum.splits)

lemma upload_refused_stage:
  assumes "attrs1 = (if attrs = PNone then PDict [] else attrs)"
    and "is_dict attrs1"
    and "send e (world s) (stage_request e b login package_name release basename
           distribution_type description dependencies attrs1 channels) = (res, w1)"
    and "status_code res \<noteq> 200"
  shows "(\<exists>err. fst (check_response e res [200] s) = Inl err
            \<and> fst (upload e b login package_name release basename f distribution_type
                  description md5 sz dependencies attrs channels s) = Inl err)
       \<and> requests_of (trace (snd (upload e b login package_name release basename f
              distribution_type description md5 sz dependencies attrs channels s)))
         = requests_of (trace s)
           @ [stage_request e b login package_name release basename distribution_type
                description dependencies attrs1 channels]"
proof -
  let ?sr = "stage_request e b login package_name release basename distribution_type
               description dependencies attrs1 channels"
  let ?s1 = "\<lparr>world = w1, trace = trace s @ [EvRequest ?sr]\<rparr>"
  from assms(4) have na: "status_code res \<notin> set [200]" by simp
  from check_response_cases [of res "[200]" e ?s1] na
  obtain err where cr: "check_response e res [200] ?s1 = (Inl err, version_check e res ?s1)"
    by auto
  have up: "upload e b login package_name release basename f distribution_type
                description md5 sz dependencies attrs channels s
            = (Inl err, version_check e res ?s1)"
    using assms(1-3) cr
    by (simp add: upload_def Let_def http_def split del: if_split)
  from cr have "fst (check_response e res [200] ?s1) = Inl err" by simp
  then have f: "fst (check_response e res [200] s) = Inl err"
    using check_response_fst [of e res "[200]" s ?s1] by simp
  from up f show ?thesis
    by (simp add: version_check_requests requests_of_append)
qed

lemma upload_md5_never_returns:
  "fst (upload e b login package_name release basename f distribution_type description
          (Some m) sz dependencies attrs channels s) \<noteq> Inr v"
proof -
  have t: "\<And>obj s3url s3data s2.
      fst (upload_transfer e b obj s3url s3data login package_name release basename f
             (Some m) sz s2) \<noteq> Inr v"
  proof -
    fix obj s3url s3data s2
    from upload_transfer_md5 [of e b obj s3url s3data login package_name release basename f m sz s2]
    show "fst (upload_transfer e b obj s3url s3data login package_name release basename f
             (Some m) sz s2) \<noteq> Inr v"
      by auto
  qed
  show ?thesis
    by (simp add: upload_def Let_def case_prod_beta t split: sum.splits)
qed

text \<open>
  Claim C3 says that a stage response with a status that is not allowed makes
  \<^verbatim>\<open>upload\<close> raise the API error of that status, \<^verbatim>\<open>Conflict\<close> for 409, with no
  storage and no commit request. The second half holds for every such response
  (\<open>upload_refused_stage\<close>). The first half holds when the body of the response
  does not decode or decodes to a dictionary, and fails otherwise: a 409 whose body is
  the JSON list \<^verbatim>\<open>[]\<close>, or a JSON string, reaches \<^verbatim>\<open>data.get\<close> in
  \<^verbatim>\<open>_check_response\<close> with a value that has no such method, and \<^verbatim>\<open>upload\<close> raises
  \<^verbatim>\<open>AttributeError\<close> instead of \<^verbatim>\<open>Conflict\<close>. The stage request is still the only
  request.
\<close>

theorem upload_stage_conflict_list_body:
  "fst (example_upload None None [reply 409 (Some (PList [])) []])
   = Inl (AttributeError ''get'')
   \<and> fst (example_upload None None [reply 409 (Some (PStr ''conflict'')) []])
     = Inl (AttributeError ''get'')
   \<and> fst (example_upload None None [reply 409 (Some (PDict [(''error'', PStr ''exists'')])) []])
     = Inl (ApiError Conflict (PStr ''exists'') 409)
   \<and> map url (requests_of (trace (snd (example_upload None None
          [reply 409 (Some (PList [])) []]))))
     = [''https://api.anaconda.org/stage/u/p/1.0/f.tgz'']"
  by (simp add: ev)

text \<open>
  Claim C1 says that an upload with a supplied digest skips the hashing and puts the
  supplied digest and the size into the form under \<^verbatim>\<open>Content-MD5\<close> and
  \<^verbatim>\<open>Content-Length\<close> before the transfer. The code skips the hashing, and then
  reads \<^verbatim>\<open>b64md5\<close>, which only the hashing branch assigns: with a digest supplied,
  and the size supplied or measured, \<^verbatim>\<open>upload\<close> raises \<^verbatim>\<open>UnboundLocalError\<close> after
  the stage request, hands no form to the encoder and sends nothing to the storage
  (in general, \<open>upload_md5_never_returns\<close>). The same upload without the digest
  goes through.
\<close>

theorem upload_md5_supplied_unbound:
  "fst (example_upload (Some ''1B2M2Y8AsgTpgAmY7PhCfg=='') (Some 3)
          [staged, reply 201 None [], committed])
   = Inl (UnboundLocalError ''b64md5'')
   \<and> map url (requests_of (trace (snd (example_upload (Some ''1B2M2Y8AsgTpgAmY7PhCfg=='')
          (Some 3) [staged, reply 201 None [], committed]))))
     = [''https://api.anaconda.org/stage/u/p/1.0/f.tgz'']
   \<and> encoded (trace (snd (example_upload (Some ''1B2M2Y8AsgTpgAmY7PhCfg=='') (Some 3)
          [staged, reply 201 None [], committed]))) = []
   \<and> fst (example_upload (Some ''1B2M2Y8AsgTpgAmY7PhCfg=='') None
          [staged, reply 201 None [], committed])
     = Inl (UnboundLocalError ''b64md5'')
   \<and> fst (example_upload None None [staged, reply 201 None [], committed])
     = Inr (PDict [(''id'', PStr ''release1'')])"
  by (simp add: ev)

end
